theory Spec2Isabelle
  imports Complex_Main "HOL-Library.Sublist"
begin

section \<open>Strings\<close>

text \<open>
  A Python \<open>str\<close> is modelled as a \<open>string\<close>: one \<open>char\<close> per code point, for the
  code points below 256. The methods of \<open>str\<close> that the scanner calls are written out
  here; \<open>needle in haystack\<close> on strings is \<^const>\<open>sublist\<close>, and \<open>s.startswith(p)\<close>
  is \<^const>\<open>prefix\<close>.
\<close>

definition newline :: char where
  "newline = CHR 0x0A"

definition str_isspace :: "char \<Rightarrow> bool" where
  \<comment> \<open>\<open>str.isspace\<close> on one code point below 256\<close>
  "str_isspace c =
     (let n = (of_char c :: nat)
      in (9 \<le> n \<and> n \<le> 13) \<or> (28 \<le> n \<and> n \<le> 32) \<or> n = 133 \<or> n = 160)"

definition str_strip :: "string \<Rightarrow> string" where
  \<comment> \<open>\<open>s.strip()\<close>: leading and trailing whitespace removed\<close>
  "str_strip s = rev (dropWhile str_isspace (rev (dropWhile str_isspace s)))"

definition lower_char :: "char \<Rightarrow> char" where
  "lower_char c =
     (let n = (of_char c :: nat)
      in if (65 \<le> n \<and> n \<le> 90) \<or> (192 \<le> n \<and> n \<le> 222 \<and> n \<noteq> 215)
         then char_of (n + 32) else c)"

definition str_lower :: "string \<Rightarrow> string" where
  \<comment> \<open>\<open>s.lower()\<close>\<close>
  "str_lower s = map lower_char s"

fun str_join :: "string \<Rightarrow> string list \<Rightarrow> string" where
  \<comment> \<open>\<open>sep.join(parts)\<close>\<close>
  "str_join sep [] = []"
| "str_join sep [p] = p"
| "str_join sep (p # q # ps) = p @ sep @ str_join sep (q # ps)"

fun partition_at :: "string \<Rightarrow> string \<Rightarrow> (string \<times> string) option" where
  \<comment> \<open>the text before and after the first occurrence of \<open>sep\<close>, if there is one\<close>
  "partition_at sep [] = (if sep = [] then Some ([], []) else None)"
| "partition_at sep (c # s) =
     (if prefix sep (c # s) then Some ([], drop (length sep) (c # s))
      else (case partition_at sep s of
              None \<Rightarrow> None
            | Some (before, after) \<Rightarrow> Some (c # before, after)))"

lemma partition_at_shorter:
  "partition_at sep s = Some (b, a) \<Longrightarrow> sep \<noteq> [] \<Longrightarrow> length a < length s"
proof (induction s arbitrary: b)
  case Nil
  then show ?case by simp
next
  case (Cons c s)
  show ?case
  proof (cases "prefix sep (c # s)")
    case True
    with Cons.prems show ?thesis by (cases sep) auto
  next
    case False
    with Cons.prems obtain b' where "partition_at sep s = Some (b', a)"
      by (auto split: option.splits)
    with Cons.IH Cons.prems(2) show ?thesis by fastforce
  qed
qed

definition str_split1 :: "string \<Rightarrow> string \<Rightarrow> string list" where
  \<comment> \<open>\<open>s.split(sep, 1)\<close> for a separator that is not empty\<close>
  "str_split1 sep s =
     (case partition_at sep s of None \<Rightarrow> [s] | Some (before, after) \<Rightarrow> [before, after])"

function str_split :: "string \<Rightarrow> string \<Rightarrow> string list" where
  \<comment> \<open>\<open>s.split(sep)\<close> for a separator that is not empty (Python raises on an empty one)\<close>
  "str_split sep s =
     (if sep = [] then [s]
      else (case partition_at sep s of
              None \<Rightarrow> [s]
            | Some (before, after) \<Rightarrow> before # str_split sep after))"
  by pat_completeness auto
termination
  by (relation "measure (\<lambda>(sep, s). length s)") (auto dest: partition_at_shorter)

function str_replace :: "string \<Rightarrow> string \<Rightarrow> string \<Rightarrow> string" where
  \<comment> \<open>\<open>s.replace(old, new)\<close> for \<open>old\<close> not empty: every occurrence, left to right\<close>
  "str_replace old new s =
     (if old = [] then s
      else (case partition_at old s of
              None \<Rightarrow> s
            | Some (before, after) \<Rightarrow> before @ new @ str_replace old new after))"
  by pat_completeness auto
termination
  by (relation "measure (\<lambda>(old, new, s). length s)") (auto dest: partition_at_shorter)

section \<open>The data model of the scanner\<close>

datatype RiskLevel = LOW | MEDIUM | HIGH

record FileAnalysis =
  file_path :: string
  original_code :: string
  refactored_code :: string
  changes_made :: "string list"
  risk_level :: RiskLevel
  risk_reasoning :: string
  functions_documented :: int
  lines_changed :: nat

subsection \<open>Overall risk\<close>

definition count_risks :: "FileAnalysis list \<Rightarrow> RiskLevel \<Rightarrow> nat" where
  \<comment> \<open>the dictionary \<open>risk_counts\<close> after the counting loop\<close>
  "count_risks analyses =
     foldl (\<lambda>risk_counts analysis.
              risk_counts(risk_level analysis := risk_counts (risk_level analysis) + 1))
       (\<lambda>_. 0) analyses"

definition calculate_overall_risk :: "FileAnalysis list \<Rightarrow> RiskLevel" where
  "calculate_overall_risk analyses =
     (if analyses = [] then LOW
      else let risk_counts = count_risks analyses
           in if risk_counts HIGH > 0 then HIGH
              else if real (risk_counts MEDIUM) > real (length analyses) / 2 then MEDIUM
              else LOW)"

subsection \<open>Lines changed\<close>

definition str_lines :: "string \<Rightarrow> string list" where
  \<comment> \<open>\<open>s.split('\n')\<close>\<close>
  "str_lines s = str_split [newline] s"

definition symmetric_difference :: "'a set \<Rightarrow> 'a set \<Rightarrow> 'a set" where
  "symmetric_difference A B = (A - B) \<union> (B - A)"

definition count_lines_changed :: "string \<Rightarrow> string \<Rightarrow> nat" where
  "count_lines_changed original refactored =
     (let original_lines = set (str_lines original);
          refactored_lines = set (str_lines refactored)
      in card (symmetric_difference original_lines refactored_lines))"

subsection \<open>Exceptions and outcomes\<close>

datatype py_exception =
    ValueError
  | KeyError
  | TypeError
  | AttributeError
  | OSError
  | RecursionError
  | OtherException

datatype 'a outcome = Returned 'a | Raised py_exception

subsection \<open>The needs-work check\<close>

text \<open>
  \<open>ast.parse\<close> is the interpreter's parser and is taken as a parameter. It yields a tree,
  raises \<open>SyntaxError\<close>, or raises another exception (\<open>RecursionError\<close> on a source that
  is nested too deeply, a sum of some thousand terms for one), which the check does not
  catch. Of a tree the check reads only the kind of each node, what \<open>ast.get_docstring\<close>
  returns for it, and its child nodes.
\<close>

datatype node_kind = FunctionDef | AsyncFunctionDef | ClassDef | OtherNode

datatype ast = Node (kind: node_kind) (get_docstring: "string option") (child_nodes: "ast list")

datatype parse_result = SyntaxError | ParseRaised py_exception | Parsed ast

lemma child_nodes_smaller: "sum_list (map size (child_nodes n)) < size n"
  by (cases n) (simp add: size_list_conv_sum_list)

function walk_queue :: "ast list \<Rightarrow> ast list" where
  \<comment> \<open>\<open>ast.walk\<close>: breadth first, from the queue \<open>todo\<close>\<close>
  "walk_queue [] = []"
| "walk_queue (n # todo) = n # walk_queue (todo @ child_nodes n)"
  by pat_completeness auto
termination
  by (relation "measure (\<lambda>todo. sum_list (map size todo))")
    (simp_all add: child_nodes_smaller)

definition walk :: "ast \<Rightarrow> ast list" where
  "walk tree = walk_queue [tree]"

definition lacks_docstring :: "ast \<Rightarrow> bool" where
  \<comment> \<open>a function or class node for which \<open>not ast.get_docstring(node)\<close> holds\<close>
  "lacks_docstring n =
     (kind n \<in> {FunctionDef, AsyncFunctionDef, ClassDef}
      \<and> (get_docstring n = None \<or> get_docstring n = Some []))"

definition needs_refactoring :: "(string \<Rightarrow> parse_result) \<Rightarrow> string \<Rightarrow> bool outcome" where
  "needs_refactoring parse code =
     (case parse code of
        SyntaxError \<Rightarrow> Returned True
      | ParseRaised e \<Rightarrow> Raised e
      | Parsed tree \<Rightarrow>
          if list_ex lacks_docstring (walk tree) then Returned True
          else if sublist ''print '' code \<and> \<not> sublist ''print('' code then Returned True
          else Returned True)"

subsection \<open>Values read from JSON\<close>

text \<open>
  What \<open>json.loads\<close> yields: \<open>JNull\<close> is Python's \<open>None\<close>, a \<open>JObj\<close> is a \<open>dict\<close>
  given by its items, each key once.
\<close>

datatype json =
    JNull
  | JBool bool
  | JInt int
  | JFloat rat
  | JStr string
  | JArr "json list"
  | JObj "(string \<times> json) list"

fun py_truthy :: "json \<Rightarrow> bool" where
  "py_truthy JNull = False"
| "py_truthy (JBool b) = b"
| "py_truthy (JInt n) = (n \<noteq> 0)"
| "py_truthy (JFloat r) = (r \<noteq> 0)"
| "py_truthy (JStr s) = (s \<noteq> [])"
| "py_truthy (JArr xs) = (xs \<noteq> [])"
| "py_truthy (JObj items) = (items \<noteq> [])"

fun py_contains :: "string \<Rightarrow> json \<Rightarrow> py_exception + bool" where
  \<comment> \<open>\<open>k in x\<close> for a string \<open>k\<close>\<close>
  "py_contains k (JObj items) = Inr (map_of items k \<noteq> None)"
| "py_contains k (JArr xs) = Inr (List.member xs (JStr k))"
| "py_contains k (JStr s) = Inr (sublist k s)"
| "py_contains k _ = Inl TypeError"

fun py_get :: "json \<Rightarrow> string \<Rightarrow> json \<Rightarrow> py_exception + json" where
  \<comment> \<open>\<open>x.get(k, dflt)\<close>: only a \<open>dict\<close> has the method\<close>
  "py_get (JObj items) k dflt = Inr (case map_of items k of None \<Rightarrow> dflt | Some v \<Rightarrow> v)"
| "py_get _ k dflt = Inl AttributeError"

fun py_has_len :: "json \<Rightarrow> bool" where
  "py_has_len (JStr s) = True"
| "py_has_len (JArr xs) = True"
| "py_has_len (JObj items) = True"
| "py_has_len _ = False"

fun as_str :: "json \<Rightarrow> string option" where
  "as_str (JStr s) = Some s"
| "as_str _ = None"

fun as_int :: "json \<Rightarrow> int option" where
  "as_int (JInt n) = Some n"
| "as_int _ = None"

fun as_str_list :: "json \<Rightarrow> string list option" where
  "as_str_list (JArr xs) =
     (if list_all (\<lambda>x. as_str x \<noteq> None) xs then Some (map (\<lambda>x. the (as_str x)) xs) else None)"
| "as_str_list _ = None"

definition RiskLevel_of :: "json \<Rightarrow> RiskLevel option" where
  \<comment> \<open>\<open>RiskLevel(v)\<close>: the member whose value is \<open>v\<close>; \<open>None\<close> where Python raises ValueError\<close>
  "RiskLevel_of v =
     (if v = JStr ''low'' then Some LOW
      else if v = JStr ''medium'' then Some MEDIUM
      else if v = JStr ''high'' then Some HIGH
      else None)"

subsection \<open>Analysing one file\<close>

text \<open>
  The file system, the rewriting capability and \<open>json.loads\<close> are outside the scanner
  and are inputs of the model: a \<open>source_file\<close> carries what \<open>read_text\<close> yields
  (\<open>None\<close> when it raises), the capability maps the file name and the code to the text of
  the response (or raises), and \<open>json_loads\<close> yields \<open>None\<close> where Python raises
  \<open>JSONDecodeError\<close>. What the function prints, and its call of the capability, are
  recorded as events in the order in which they happen.
\<close>

record source_file =
  rel_path :: string
  file_name :: string
  contents :: "string option"

record scanner_env =
  ast_parse :: "string \<Rightarrow> parse_result"
  capability :: "string \<Rightarrow> string \<Rightarrow> py_exception + string"
  json_loads :: "string \<Rightarrow> json option"
  security_keywords :: "string list option"
  generate_summary :: "FileAnalysis list \<Rightarrow> RiskLevel \<Rightarrow> string"

datatype event =
    Analyzing
  | ReadError
  | FileTooSmall
  | LooksGood
  | Refactoring
  | ModelCall string string
  | NoRefactoredCodeTags
  | NoAnalysisTags
  | InvalidJSON
  | RiskReport RiskLevel
  | ChangesReport nat
  | DocumentedReport

definition is_model_call :: "event \<Rightarrow> bool" where
  "is_model_call e = (case e of ModelCall name code \<Rightarrow> True | _ \<Rightarrow> False)"

text \<open>
  The dataclass does not check its fields, so \<open>analyze_file\<close> can return an object whose
  fields are not of the annotated types (a \<open>changes_made\<close> that is a string, say). The
  model follows the typed objects only: such a return is \<open>UntypedAnalysis\<close>.
\<close>

datatype analysis = NoAnalysis | Analysis FileAnalysis | UntypedAnalysis

definition search_tag :: "string \<Rightarrow> string \<Rightarrow> string \<Rightarrow> string option" where
  \<comment> \<open>\<open>re.search(open_tag + '(.*?)' + close_tag, response, re.DOTALL)\<close>, group 1: the text
      between the first opening tag and the first closing tag after it\<close>
  "search_tag open_tag close_tag response =
     (case partition_at open_tag response of
        None \<Rightarrow> None
      | Some (_, rest) \<Rightarrow>
          (case partition_at close_tag rest of
             None \<Rightarrow> None
           | Some (body, _) \<Rightarrow> Some body))"

definition code_fence :: string where
  "code_fence = replicate 3 (CHR 0x60)"

definition strip_code_fence :: "string \<Rightarrow> string" where
  \<comment> \<open>the clean-up of the analysis text before \<open>json.loads\<close>\<close>
  "strip_code_fence analysis_json =
     (if prefix code_fence analysis_json then
        (let lines1 = tl (str_lines analysis_json);
             lines2 = (if lines1 \<noteq> [] \<and> str_strip (last lines1) = code_fence
                       then butlast lines1 else lines1)
         in str_join [newline] lines2)
      else analysis_json)"

definition len_json :: "json \<Rightarrow> nat" where
  "len_json v = (case v of JStr s \<Rightarrow> length s | JArr xs \<Rightarrow> length xs
                 | JObj items \<Rightarrow> length items | _ \<Rightarrow> 0)"

definition build_analysis ::
  "string \<Rightarrow> string \<Rightarrow> string \<Rightarrow> json \<Rightarrow> event list \<times> analysis outcome" where
  \<comment> \<open>from \<open>result['refactored_code'] = refactored_code\<close> to the return of the analysis\<close>
  "build_analysis path original refactored result =
     (case result of
        JObj items \<Rightarrow>
          (let lines_changed' = count_lines_changed original refactored
           in case map_of items ''changes_made'' of
                None \<Rightarrow> ([], Raised KeyError)
              | Some changes \<Rightarrow>
                  (case map_of items ''risk_level'' of
                     None \<Rightarrow> ([], Raised KeyError)
                   | Some level \<Rightarrow>
                       (case RiskLevel_of level of
                          None \<Rightarrow> ([], Raised ValueError)
                        | Some risk \<Rightarrow>
                            (case map_of items ''risk_reasoning'' of
                               None \<Rightarrow> ([], Raised KeyError)
                             | Some reasoning \<Rightarrow>
                                 (let documented =
                                        (case map_of items ''functions_documented'' of
                                           None \<Rightarrow> JInt 0 | Some d \<Rightarrow> d)
                                  in if \<not> py_has_len changes
                                     then ([RiskReport risk], Raised TypeError)
                                     else
                                       ([RiskReport risk, ChangesReport (len_json changes),
                                         DocumentedReport],
                                        Returned
                                          (case (as_str_list changes, as_str reasoning,
                                                 as_int documented) of
                                             (Some cs, Some rr, Some fd) \<Rightarrow>
                                               Analysis
                                                 \<lparr>file_path = path,
                                                  original_code = original,
                                                  refactored_code = refactored,
                                                  changes_made = cs,
                                                  risk_level = risk,
                                                  risk_reasoning = rr,
                                                  functions_documented = fd,
                                                  lines_changed = lines_changed'\<rparr>
                                           | _ \<Rightarrow> UntypedAnalysis)))))))
      | _ \<Rightarrow> ([], Raised TypeError))"

definition parse_response ::
  "scanner_env \<Rightarrow> string \<Rightarrow> string \<Rightarrow> string \<Rightarrow> event list \<times> analysis outcome" where
  \<comment> \<open>\<open>analyze_file\<close> from the extraction of the tags on\<close>
  "parse_response env path original response =
     (case search_tag ''<refactored_code>'' ''</refactored_code>'' response of
        None \<Rightarrow> ([NoRefactoredCodeTags], Returned NoAnalysis)
      | Some code_body \<Rightarrow>
          (let refactored = str_strip code_body
           in case search_tag ''<analysis>'' ''</analysis>'' response of
                None \<Rightarrow> ([NoAnalysisTags], Returned NoAnalysis)
              | Some analysis_body \<Rightarrow>
                  (case json_loads env (strip_code_fence (str_strip analysis_body)) of
                     None \<Rightarrow> ([InvalidJSON], Returned NoAnalysis)
                   | Some result \<Rightarrow> build_analysis path original refactored result)))"

definition analyze_file :: "scanner_env \<Rightarrow> source_file \<Rightarrow> event list \<times> analysis outcome" where
  "analyze_file env f =
     (case contents f of
        None \<Rightarrow> ([Analyzing, ReadError], Returned NoAnalysis)
      | Some original \<Rightarrow>
          if length (str_strip original) < 50
          then ([Analyzing, FileTooSmall], Returned NoAnalysis)
          else
            (case needs_refactoring (ast_parse env) original of
               Raised e \<Rightarrow> ([Analyzing], Raised e)
             | Returned False \<Rightarrow> ([Analyzing, LooksGood], Returned NoAnalysis)
             | Returned True \<Rightarrow>
                 (let called = [Analyzing, Refactoring, ModelCall (file_name f) original]
                  in case capability env (file_name f) original of
                       Inl e \<Rightarrow> (called, Raised e)
                     | Inr response \<Rightarrow>
                         (case parse_response env (rel_path f) original response of
                            (printed, result) \<Rightarrow> (called @ printed, result)))))"

subsection \<open>Security flag, packages and the scan\<close>

definition default_security_keywords :: "string list" where
  "default_security_keywords =
     [''security'', ''vulnerability'', ''exploit'', ''injection'', ''xss'', ''sql injection'']"

definition configured_keywords :: "scanner_env \<Rightarrow> string list" where
  \<comment> \<open>\<open>prompt_config.get('security_keywords', [...])\<close>\<close>
  "configured_keywords env =
     (case security_keywords env of None \<Rightarrow> default_security_keywords | Some ks \<Rightarrow> ks)"

fun mentions_keyword :: "string list \<Rightarrow> FileAnalysis list \<Rightarrow> bool" where
  \<comment> \<open>the loops of \<open>_has_critical_security_issues\<close> over a keyword list\<close>
  "mentions_keyword keywords [] = False"
| "mentions_keyword keywords (analysis # rest) =
     (let reasoning_lower = str_lower (risk_reasoning analysis)
      in if list_ex (\<lambda>keyword. sublist keyword reasoning_lower) keywords then True
         else if list_ex (\<lambda>change. list_ex (\<lambda>keyword. sublist keyword (str_lower change))
                                     keywords)
                   (changes_made analysis)
         then True
         else mentions_keyword keywords rest)"

definition has_critical_security_issues :: "scanner_env \<Rightarrow> FileAnalysis list \<Rightarrow> bool" where
  "has_critical_security_issues env analyses =
     mentions_keyword (configured_keywords env) analyses"

definition path_parts :: "string \<Rightarrow> string list" where
  \<comment> \<open>\<open>Path(p).parts\<close> of a POSIX path\<close>
  "path_parts p =
     (let names = filter (\<lambda>c. c \<noteq> [] \<and> c \<noteq> ''.'') (str_split ''/'' p);
          root = (if prefix ''//'' p \<and> \<not> prefix ''///'' p then [''//'']
                  else if prefix ''/'' p then [''/'']
                  else [])
      in root @ names)"

fun dict_append :: "'k \<Rightarrow> 'v \<Rightarrow> ('k \<times> 'v list) list \<Rightarrow> ('k \<times> 'v list) list" where
  \<comment> \<open>\<open>if k not in d: d[k] = []\<close> and then \<open>d[k].append(v)\<close>, on the items of \<open>d\<close>\<close>
  "dict_append k v [] = [(k, [v])]"
| "dict_append k v ((k', vs) # items) =
     (if k = k' then (k', vs @ [v]) # items else (k', vs) # dict_append k v items)"

definition group_by_package :: "FileAnalysis list \<Rightarrow> (string \<times> FileAnalysis list) list" where
  "group_by_package analyses =
     foldl (\<lambda>packages analysis.
              let parts = path_parts (file_path analysis);
                  package = (if length parts > 1 then hd parts else ''root'')
              in dict_append package analysis packages)
       [] analyses"

record CodebaseAnalysis =
  files :: "FileAnalysis list"
  overall_risk :: RiskLevel
  total_files :: nat
  total_changes :: nat
  summary :: string
  packages :: "(string \<times> FileAnalysis list) list"
  has_critical_security :: bool

text \<open>
  A scan that has collected an untyped analysis goes on outside the typed model: it is
  \<open>UntypedAnalyses\<close>, then \<open>UntypedScan\<close>, and the model says nothing about how it ends.
\<close>

datatype analyses = Analyses "FileAnalysis list" | UntypedAnalyses

fun analyze_files :: "scanner_env \<Rightarrow> source_file list \<Rightarrow> analyses outcome" where
  \<comment> \<open>the loop of \<open>scan_codebase\<close> that collects the analyses\<close>
  "analyze_files env [] = Returned (Analyses [])"
| "analyze_files env (f # fs) =
     (case snd (analyze_file env f) of
        Raised e \<Rightarrow> Raised e
      | Returned r \<Rightarrow>
          (case analyze_files env fs of
             Raised e \<Rightarrow> Raised e
           | Returned UntypedAnalyses \<Rightarrow> Returned UntypedAnalyses
           | Returned (Analyses rest) \<Rightarrow>
               (case r of
                  NoAnalysis \<Rightarrow> Returned (Analyses rest)
                | Analysis a \<Rightarrow> Returned (Analyses (a # rest))
                | UntypedAnalysis \<Rightarrow> Returned UntypedAnalyses)))"

datatype scan = Scan CodebaseAnalysis | UntypedScan

definition scan_codebase :: "scanner_env \<Rightarrow> source_file list \<Rightarrow> scan outcome" where
  \<comment> \<open>\<open>python_files\<close> is what \<open>find_python_files\<close> found, in its order; the summary text
      is rendered by \<open>generate_summary\<close> of the environment\<close>
  "scan_codebase env python_files =
     (case analyze_files env python_files of
        Raised e \<Rightarrow> Raised e
      | Returned UntypedAnalyses \<Rightarrow> Returned UntypedScan
      | Returned (Analyses analyses) \<Rightarrow>
          (let overall_risk' = calculate_overall_risk analyses;
               packages' = group_by_package analyses;
               has_critical_security' = has_critical_security_issues env analyses;
               summary' = generate_summary env analyses overall_risk'
           in Returned (Scan
                \<lparr>files = analyses,
                 overall_risk = overall_risk',
                 total_files = length analyses,
                 total_changes = sum_list (map (\<lambda>a. length (changes_made a)) analyses),
                 summary = summary',
                 packages = packages',
                 has_critical_security = has_critical_security'\<rparr>)))"

subsection \<open>Repository identity\<close>

text \<open>
  Both resolvers parse the remote URL in the same way; the scanner strips the result once
  more. What comes before the parsing is an input: for the scanner, what the search for
  \<open>url = ...\<close> in \<open>.git/config\<close> found, and the two answers to its prompts; for the PR
  creator, the output of \<open>git remote get-url origin\<close> (\<open>None\<close> when the command fails).
\<close>

definition parse_remote_url :: "bool \<Rightarrow> string \<Rightarrow> py_exception + string \<times> string" where
  \<comment> \<open>from \<open>if "github.com/" in remote_url\<close> to \<open>owner, repo = parts.split("/", 1)\<close>\<close>
  "parse_remote_url strip_parts remote_url =
     (case (if sublist ''github.com/'' remote_url
            then Some (str_split ''github.com/'' remote_url ! 1)
            else if sublist ''github.com:'' remote_url
            then Some (str_split ''github.com:'' remote_url ! 1)
            else None) of
        None \<Rightarrow> Inl ValueError
      | Some parts1 \<Rightarrow>
          (let parts2 = str_replace ''.git'' [] parts1;
               parts3 = (if strip_parts then str_strip parts2 else parts2)
           in case str_split1 ''/'' parts3 of
                [owner, repo] \<Rightarrow> Inr (owner, repo)
              | _ \<Rightarrow> Inl ValueError))"

datatype git_config = NoGitConfig | NoUrlMatch | UrlMatch string

definition scanner_get_repo_info ::
  "git_config \<Rightarrow> string \<Rightarrow> string \<Rightarrow> py_exception + string \<times> string" where
  \<comment> \<open>\<open>CodebaseScanner._get_repo_info\<close>\<close>
  "scanner_get_repo_info config owner_input repo_input =
     (let detected =
            (case config of
               NoGitConfig \<Rightarrow> Inl ValueError
             | NoUrlMatch \<Rightarrow> Inl ValueError
             | UrlMatch group1 \<Rightarrow> parse_remote_url True (str_strip group1))
      in case detected of
           Inr (owner, repo) \<Rightarrow> Inr (owner, repo)
         | Inl e \<Rightarrow>
             (let owner = str_strip owner_input; repo = str_strip repo_input
              in if owner = [] \<or> repo = [] then Inl OtherException else Inr (owner, repo)))"

definition get_repo_info :: "string option \<Rightarrow> py_exception + string \<times> string" where
  \<comment> \<open>\<open>MCPGitHubPRCreator.get_repo_info\<close>\<close>
  "get_repo_info git_stdout =
     (case git_stdout of
        None \<Rightarrow> Inl OtherException
      | Some out \<Rightarrow>
          (case parse_remote_url False (str_strip out) of
             Inl e \<Rightarrow> Inl OtherException
           | Inr (owner, repo) \<Rightarrow> Inr (owner, repo)))"

subsection \<open>Loading the secret file\<close>






subsection \<open>Pushing the files and opening the pull request\<close>

text \<open>
  \<open>_run_mcp_tool\<close> runs the backend in a container and is an input of the model: a
  function from the server name and the request to what the call returns, \<open>JNull\<close>
  (Python's \<open>None\<close>) when there is no response. The workflow yields the requests it
  issued, in order, and how it ended.
\<close>

definition tool_request :: "int \<Rightarrow> string \<Rightarrow> (string \<times> json) list \<Rightarrow> json" where
  "tool_request request_id tool arguments =
     JObj [(''jsonrpc'', JStr ''2.0''),
           (''id'', JInt request_id),
           (''method'', JStr ''tools/call''),
           (''params'', JObj [(''name'', JStr tool), (''arguments'', JObj arguments)])]"

definition push_request ::
  "string \<Rightarrow> string \<Rightarrow> string \<Rightarrow> string \<Rightarrow> (string \<times> string) list \<Rightarrow> json" where
  "push_request owner repo branch_name commit_message changed =
     tool_request 1 ''push_files''
       [(''owner'', JStr owner),
        (''repo'', JStr repo),
        (''branch'', JStr branch_name),
        (''files'', JArr (map (\<lambda>(path, content).
                                 JObj [(''path'', JStr path), (''content'', JStr content)])
                            changed)),
        (''message'', JStr commit_message)]"

definition pr_request :: "string \<Rightarrow> string \<Rightarrow> string \<Rightarrow> string \<Rightarrow> string \<Rightarrow> json" where
  "pr_request owner repo branch_name pr_title pr_body =
     tool_request 2 ''create_pull_request''
       [(''owner'', JStr owner),
        (''repo'', JStr repo),
        (''title'', JStr pr_title),
        (''body'', JStr pr_body),
        (''head'', JStr branch_name),
        (''base'', JStr ''main'')]"

definition requested_tool :: "json \<Rightarrow> string option" where
  \<comment> \<open>the tool a request names: \<open>request["params"]["name"]\<close>\<close>
  "requested_tool request =
     (case request of
        JObj items \<Rightarrow>
          (case map_of items ''params'' of
             Some (JObj params) \<Rightarrow>
               (case map_of params ''name'' of Some (JStr tool) \<Rightarrow> Some tool | _ \<Rightarrow> None)
           | _ \<Rightarrow> None)
      | _ \<Rightarrow> None)"

definition step_failed :: "json \<Rightarrow> bool outcome" where
  \<comment> \<open>\<open>if not r or "error" in r:\<close> with the error message it formats in that branch\<close>
  "step_failed r =
     (if \<not> py_truthy r then Returned True
      else (case py_contains ''error'' r of
              Inl e \<Rightarrow> Raised e
            | Inr False \<Rightarrow> Returned False
            | Inr True \<Rightarrow>
                (case py_get r ''error'' (JObj []) of
                   Inl e \<Rightarrow> Raised e
                 | Inr err \<Rightarrow>
                     (case py_get err ''message'' (JStr ''Unknown error'') of
                        Inl e \<Rightarrow> Raised e
                      | Inr msg \<Rightarrow> Returned True))))"

definition extract_pr_url :: "json \<Rightarrow> json outcome" where
  \<comment> \<open>\<open>result_data.get("html_url") or result_data.get("url")\<close> of the result field\<close>
  "extract_pr_url pr_result =
     (case py_get pr_result ''result'' (JObj []) of
        Inl e \<Rightarrow> Raised e
      | Inr result_data \<Rightarrow>
          (case py_get result_data ''html_url'' JNull of
             Inl e \<Rightarrow> Raised e
           | Inr html_url \<Rightarrow>
               if py_truthy html_url then Returned html_url
               else (case py_get result_data ''url'' JNull of
                       Inl e \<Rightarrow> Raised e
                     | Inr url \<Rightarrow> Returned url)))"

definition has_error_field :: "json \<Rightarrow> bool" where
  \<comment> \<open>a response that is a \<open>dict\<close> with the key \<open>"error"\<close>\<close>
  "has_error_field r =
     (case r of JObj items \<Rightarrow> map_of items ''error'' \<noteq> None | _ \<Rightarrow> False)"

definition has_error_object :: "json \<Rightarrow> bool" where
  \<comment> \<open>a response whose \<open>"error"\<close> is an object, as a JSON-RPC error is\<close>
  "has_error_object r =
     (case r of
        JObj items \<Rightarrow> (case map_of items ''error'' of Some (JObj err) \<Rightarrow> True | _ \<Rightarrow> False)
      | _ \<Rightarrow> False)"

definition create_pr_via_mcp ::
  "(string \<Rightarrow> json \<Rightarrow> json) \<Rightarrow> string \<Rightarrow> string \<Rightarrow> string \<Rightarrow> string \<Rightarrow> string \<Rightarrow> string
     \<Rightarrow> (string \<times> string) list \<Rightarrow> json list \<times> json outcome" where
  "create_pr_via_mcp run_mcp_tool owner repo branch_name commit_message pr_title pr_body changed =
     (let push = push_request owner repo branch_name commit_message changed;
          push_result = run_mcp_tool ''github'' push
      in case step_failed push_result of
           Raised e \<Rightarrow> ([push], Raised e)
         | Returned True \<Rightarrow> ([push], Returned JNull)
         | Returned False \<Rightarrow>
             (let pr = pr_request owner repo branch_name pr_title pr_body;
                  pr_result = run_mcp_tool ''github'' pr
              in case step_failed pr_result of
                   Raised e \<Rightarrow> ([push, pr], Raised e)
                 | Returned True \<Rightarrow> ([push, pr], Returned JNull)
                 | Returned False \<Rightarrow> ([push, pr], extract_pr_url pr_result)))"

definition pr_url_of :: "json outcome \<Rightarrow> json" where
  \<comment> \<open>what \<open>create_github_pr\<close> returns for the call: the URL when there is one, \<open>None\<close>
      when there is none or the call raised\<close>
  "pr_url_of out =
     (case out of
        Returned pr_url \<Rightarrow> if py_truthy pr_url then pr_url else JNull
      | Raised e \<Rightarrow> JNull)"

subsection \<open>Sample inputs\<close>

definition sample_analysis :: "RiskLevel \<Rightarrow> string \<Rightarrow> string list \<Rightarrow> FileAnalysis" where
  "sample_analysis risk reasoning changes =
     \<lparr>file_path = ''pkg/module.py'', original_code = [], refactored_code = [],
      changes_made = changes, risk_level = risk, risk_reasoning = reasoning,
      functions_documented = 0, lines_changed = 0\<rparr>"

definition sample_original :: string where
  "sample_original =
     ''def add(a, b):\<newline>    return a+b\<newline>\<newline>def sub(a, b):\<newline>    return a-b\<newline>''"

definition sample_refactored :: string where
  "sample_refactored =
     ''def add(a, b):\<newline>    return a + b\<newline>def sub(a, b):\<newline>    return a-b''"

definition sample_analysis_json :: string where
  \<open>sample_analysis_json =
     ''{"changes_made": ["spacing"], "risk_level": "low", "risk_reasoning": "format only"}''\<close>

definition sample_critical_json :: string where
  \<open>sample_critical_json =
     ''{"changes_made": [], "risk_level": "critical", "risk_reasoning": "unsafe"}''\<close>

definition sample_response :: "string \<Rightarrow> string" where
  "sample_response analysis_json =
     ''<refactored_code>\<newline>'' @ sample_refactored @ ''\<newline></refactored_code>\<newline><analysis>''
       @ analysis_json @ ''</analysis>''"

definition sample_json_loads :: "string \<Rightarrow> json option" where
  \<comment> \<open>\<open>json.loads\<close> on the two sample texts\<close>
  "sample_json_loads =
     map_of
       [(sample_analysis_json,
         JObj [(''changes_made'', JArr [JStr ''spacing'']), (''risk_level'', JStr ''low''),
               (''risk_reasoning'', JStr ''format only'')]),
        (sample_critical_json,
         JObj [(''changes_made'', JArr []), (''risk_level'', JStr ''critical''),
               (''risk_reasoning'', JStr ''unsafe'')])]"

definition sample_tree :: ast where
  \<comment> \<open>a module of two functions, each with its docstring\<close>
  "sample_tree =
     Node OtherNode None
       [Node FunctionDef (Some ''Add.'') [Node OtherNode None []],
        Node FunctionDef (Some ''Subtract.'') [Node OtherNode None []]]"

definition sample_env :: "string \<Rightarrow> string list option \<Rightarrow> scanner_env" where
  "sample_env response keywords =
     \<lparr>ast_parse = (\<lambda>code. Parsed sample_tree),
      capability = (\<lambda>name code. Inr response),
      json_loads = sample_json_loads,
      security_keywords = keywords,
      generate_summary = (\<lambda>analyses risk. [])\<rparr>"

definition deeply_nested_source :: string where
  \<comment> \<open>a sum of 3000 terms, on which CPython's \<open>ast.parse\<close> raises \<open>RecursionError\<close>\<close>
  "deeply_nested_source = ''x = 0'' @ concat (replicate 2999 '' + 0'')"

definition sample_file :: source_file where
  "sample_file =
     \<lparr>rel_path = ''pkg/calc.py'', file_name = ''calc.py'', contents = Some sample_original\<rparr>"

definition small_file :: source_file where
  "small_file = \<lparr>rel_path = ''setup.py'', file_name = ''setup.py'', contents = Some ''x = 1''\<rparr>"

definition sample_result :: FileAnalysis where
  "sample_result =
     \<lparr>file_path = ''pkg/calc.py'', original_code = sample_original,
      refactored_code = sample_refactored, changes_made = [''spacing''], risk_level = LOW,
      risk_reasoning = ''format only'', functions_documented = 0, lines_changed = 3\<rparr>"

definition sample_backend :: "json \<Rightarrow> string \<Rightarrow> json \<Rightarrow> json" where
  \<comment> \<open>a backend that answers the push with \<open>push_response\<close> and opens the pull request\<close>
  "sample_backend push_response server request =
     (if requested_tool request = Some ''push_files'' then push_response
      else JObj [(''result'', JObj [(''html_url'', JStr ''https://github.com/acme/tools/pull/7'')])])"

definition sample_run ::
  "json \<Rightarrow> json list \<times> json outcome" where
  "sample_run push_response =
     create_pr_via_mcp (sample_backend push_response) ''acme'' ''tools''
       ''refactor/automated-code-improvements'' ''Automated code refactoring''
       ''Refactoring'' ''Body'' [(''pkg/calc.py'', sample_refactored)]"

section \<open>Properties\<close>

subsection \<open>Overall risk\<close>

lemma foldl_count_risks:
  "foldl (\<lambda>rc a. rc(risk_level a := rc (risk_level a) + 1)) acc analyses r =
     acc r + length (filter (\<lambda>a. risk_level a = r) analyses)"
  by (induction analyses arbitrary: acc) auto

lemma count_risks_filter:
  "count_risks analyses r = length (filter (\<lambda>a. risk_level a = r) analyses)"
  unfolding count_risks_def by (subst foldl_count_risks) simp

text \<open>
  Claim C1. The overall risk is HIGH when some file is HIGH; otherwise MEDIUM when the
  MEDIUM files are strictly more than half of all analysed files; otherwise LOW; and it is
  LOW for the empty list.
\<close>

theorem calculate_overall_risk_spec:
  "calculate_overall_risk analyses =
     (if \<exists>a \<in> set analyses. risk_level a = HIGH then HIGH
      else if length analyses < 2 * length (filter (\<lambda>a. risk_level a = MEDIUM) analyses)
      then MEDIUM
      else LOW)
   \<and> calculate_overall_risk [] = LOW"
proof -
  have high: "(0 < length (filter (\<lambda>a. risk_level a = HIGH) analyses))
                \<longleftrightarrow> (\<exists>a \<in> set analyses. risk_level a = HIGH)"
    by (simp add: filter_empty_conv)
  have half: "(real (length analyses) / 2 < real m) \<longleftrightarrow> (length analyses < 2 * m)" for m
  proof -
    have "(real (length analyses) / 2 < real m) \<longleftrightarrow> (real (length analyses) < real (2 * m))"
      by (simp add: field_simps)
    also have "\<dots> \<longleftrightarrow> (length analyses < 2 * m)"
      by (rule of_nat_less_iff)
    finally show ?thesis .
  qed
  have general: "calculate_overall_risk analyses =
     (if \<exists>a \<in> set analyses. risk_level a = HIGH then HIGH
      else if length analyses < 2 * length (filter (\<lambda>a. risk_level a = MEDIUM) analyses)
      then MEDIUM
      else LOW)"
  proof (cases "analyses = []")
    case True
    then show ?thesis by (simp add: calculate_overall_risk_def)
  next
    case False
    then show ?thesis
      unfolding calculate_overall_risk_def Let_def count_risks_filter high half
      by simp
  qed
  have empty: "calculate_overall_risk [] = LOW"
    by (simp add: calculate_overall_risk_def)
  from general empty show ?thesis by blast
qed

theorem calculate_overall_risk_witness:
  "calculate_overall_risk
     [sample_analysis HIGH [] [], sample_analysis LOW [] [], sample_analysis LOW [] []] = HIGH
   \<and> calculate_overall_risk
     [sample_analysis MEDIUM [] [], sample_analysis MEDIUM [] [], sample_analysis LOW [] []]
       = MEDIUM
   \<and> calculate_overall_risk
     [sample_analysis LOW [] [], sample_analysis MEDIUM [] [], sample_analysis LOW [] [],
      sample_analysis LOW [] []] = LOW
   \<and> calculate_overall_risk
     [sample_analysis MEDIUM [] [], sample_analysis LOW [] []] = LOW
   \<and> calculate_overall_risk [] = LOW"
  using calculate_overall_risk_spec
          [of "[sample_analysis HIGH [] [], sample_analysis LOW [] [], sample_analysis LOW [] []]"]
        calculate_overall_risk_spec
          [of "[sample_analysis MEDIUM [] [], sample_analysis MEDIUM [] [],
                sample_analysis LOW [] []]"]
        calculate_overall_risk_spec
          [of "[sample_analysis LOW [] [], sample_analysis MEDIUM [] [], sample_analysis LOW [] [],
                sample_analysis LOW [] []]"]
        calculate_overall_risk_spec
          [of "[sample_analysis MEDIUM [] [], sample_analysis LOW [] []]"]
  by (simp add: sample_analysis_def)

subsection \<open>The needs-work check\<close>

text \<open>
  Claim C10, as amended. The needs-work check never returns false. Whenever \<open>ast.parse\<close>
  yields a tree or raises \<open>SyntaxError\<close> it returns true: on a syntax error, when a function
  or class has no docstring, and in the final fallback, so a file that parses and is fully
  documented is still classified as needing work. An exception of \<open>ast.parse\<close> other than
  \<open>SyntaxError\<close> is not caught and leaves the check.
\<close>

theorem needs_refactoring_true_or_raises:
  "needs_refactoring parse code =
     (case parse code of ParseRaised e \<Rightarrow> Raised e | _ \<Rightarrow> Returned True)
   \<and> needs_refactoring parse code \<noteq> Returned False"
  by (simp add: needs_refactoring_def split: parse_result.split)

theorem needs_refactoring_true_or_raises_witness:
  "\<not> list_ex lacks_docstring (walk sample_tree)
   \<and> \<not> sublist ''print '' sample_original
   \<and> needs_refactoring (\<lambda>code. Parsed sample_tree) sample_original = Returned True
   \<and> needs_refactoring (\<lambda>code. SyntaxError) ''def broken(:'' = Returned True"
proof -
  have "\<not> list_ex lacks_docstring (walk sample_tree)"
    by code_simp
  moreover have "\<not> sublist ''print '' sample_original"
    by code_simp
  ultimately show ?thesis
    using needs_refactoring_true_or_raises [of "\<lambda>code. Parsed sample_tree" sample_original]
          needs_refactoring_true_or_raises [of "\<lambda>code. SyntaxError" "''def broken(:''"]
    by simp
qed

theorem needs_refactoring_counterexample:
  "needs_refactoring (\<lambda>code. ParseRaised RecursionError) deeply_nested_source
     = Raised RecursionError
   \<and> needs_refactoring (\<lambda>code. ParseRaised RecursionError) deeply_nested_source
       \<noteq> Returned True"
  by (simp add: needs_refactoring_def)

subsection \<open>Analysing one file\<close>

lemma str_strip_length: "length (str_strip s) \<le> length s"
proof -
  have "length (str_strip s) = length (dropWhile str_isspace (rev (dropWhile str_isspace s)))"
    by (simp add: str_strip_def)
  also have "\<dots> \<le> length (rev (dropWhile str_isspace s))"
    by (rule length_dropWhile_le)
  also have "\<dots> \<le> length s"
    by (simp add: length_dropWhile_le)
  finally show ?thesis .
qed

text \<open>
  Claim C8. A file whose content is shorter than the threshold of 50 characters is skipped:
  \<open>analyze_file\<close> returns none, having printed that the file is too small, and the model
  capability is not called.
\<close>

theorem analyze_file_skips_small_file:
  assumes "contents f = Some code" and "length code < 50"
  shows "analyze_file env f = ([Analyzing, FileTooSmall], Returned NoAnalysis)
         \<and> \<not> list_ex is_model_call (fst (analyze_file env f))"
proof -
  from assms(2) str_strip_length [of code] have "length (str_strip code) < 50"
    by simp
  with assms(1) have "analyze_file env f = ([Analyzing, FileTooSmall], Returned NoAnalysis)"
    by (simp add: analyze_file_def)
  then show ?thesis
    by (simp add: is_model_call_def)
qed

theorem analyze_file_skips_small_file_witness:
  "contents small_file = Some ''x = 1'' \<and> length ''x = 1'' < (50::nat)
   \<and> analyze_file (sample_env (sample_response sample_analysis_json) None) small_file
       = ([Analyzing, FileTooSmall], Returned NoAnalysis)
   \<and> \<not> list_ex is_model_call
         (fst (analyze_file (sample_env (sample_response sample_analysis_json) None) small_file))"
proof -
  have c: "contents small_file = Some ''x = 1''"
    by (simp add: small_file_def)
  have l: "length ''x = 1'' < (50::nat)"
    by simp
  from analyze_file_skips_small_file [OF c l] c l show ?thesis
    by blast
qed

lemma build_analysis_fields:
  assumes "build_analysis path original refactored result = (printed, Returned (Analysis a))"
  shows "lines_changed a = count_lines_changed original refactored
         \<and> original_code a = original \<and> refactored_code a = refactored"
  using assms
  by (auto simp: build_analysis_def Let_def
           split: json.splits option.splits if_splits prod.splits)

lemma parse_response_fields:
  assumes "parse_response env path original response = (printed, Returned (Analysis a))"
  shows "lines_changed a = count_lines_changed original (refactored_code a)
         \<and> original_code a = original"
proof -
  from assms obtain refactored result
    where "build_analysis path original refactored result = (printed, Returned (Analysis a))"
    by (auto simp: parse_response_def Let_def split: option.splits)
  from build_analysis_fields [OF this] show ?thesis
    by simp
qed

lemma analyze_file_fields:
  assumes "analyze_file env f = (printed, Returned (Analysis a))"
  shows "contents f = Some (original_code a)
         \<and> lines_changed a = count_lines_changed (original_code a) (refactored_code a)"
proof -
  from assms obtain original where c: "contents f = Some original"
    by (cases "contents f") (auto simp: analyze_file_def)
  from assms c obtain response printed'
    where "parse_response env (rel_path f) original response
             = (printed', Returned (Analysis a))"
    by (auto simp: analyze_file_def Let_def
             split: if_splits sum.splits prod.splits outcome.splits bool.splits)
  from parse_response_fields [OF this] c show ?thesis
    by simp
qed

lemma partition_at_Some: "partition_at sep s = Some (b, a) \<Longrightarrow> s = b @ sep @ a"
proof (induction s arbitrary: b)
  case Nil
  then show ?case by (simp split: if_splits)
next
  case (Cons c s)
  show ?case
  proof (cases "prefix sep (c # s)")
    case True
    with Cons.prems have "b = []" and "a = drop (length sep) (c # s)"
      by auto
    moreover from True have "c # s = sep @ drop (length sep) (c # s)"
      by (metis append_eq_conv_conj prefix_def)
    ultimately show ?thesis
      by simp
  next
    case False
    with Cons.prems obtain b' where "partition_at sep s = Some (b', a)" and "b = c # b'"
      by (auto split: option.splits)
    with Cons.IH show ?thesis
      by simp
  qed
qed

lemma partition_at_char_absent: "c \<notin> set s \<Longrightarrow> partition_at [c] s = None"
  by (induction s) auto

lemma partition_at_char_first: "c \<notin> set p \<Longrightarrow> partition_at [c] (p @ c # r) = Some (p, r)"
  by (induction p) auto

lemma partition_at_char_None: "partition_at [c] s = None \<Longrightarrow> c \<notin> set s"
  by (induction s) (auto split: if_splits option.splits)

lemma partition_at_char_before: "partition_at [c] s = Some (b, a) \<Longrightarrow> c \<notin> set b"
  by (induction s arbitrary: b) (auto split: if_splits option.splits)

lemma str_join_Cons: "ps \<noteq> [] \<Longrightarrow> str_join sep (p # ps) = p @ sep @ str_join sep ps"
  by (cases ps) simp_all

lemma str_split_char:
  "str_split [c] s \<noteq> []
   \<and> str_join [c] (str_split [c] s) = s
   \<and> (\<forall>l \<in> set (str_split [c] s). c \<notin> set l)"
proof (induction s rule: length_induct)
  case (1 s)
  show ?case
  proof (cases "partition_at [c] s")
    case None
    then have "str_split [c] s = [s]"
      by (subst str_split.simps) simp
    with None partition_at_char_None show ?thesis
      by simp
  next
    case (Some ba)
    obtain b a where ba: "ba = (b, a)"
      by (cases ba)
    with Some have part: "partition_at [c] s = Some (b, a)"
      by simp
    then have split: "str_split [c] s = b # str_split [c] a"
      by (subst str_split.simps) simp
    from part have s: "s = b @ [c] @ a"
      by (rule partition_at_Some)
    then have "length a < length s"
      by simp
    with 1 have ih: "str_split [c] a \<noteq> []" "str_join [c] (str_split [c] a) = a"
      "\<forall>l \<in> set (str_split [c] a). c \<notin> set l"
      by blast+
    from split ih s partition_at_char_before [OF part] show ?thesis
      by (simp add: str_join_Cons)
  qed
qed

lemma str_split_char_unique:
  "xs \<noteq> [] \<Longrightarrow> \<forall>l \<in> set xs. c \<notin> set l \<Longrightarrow> str_split [c] (str_join [c] xs) = xs"
proof (induction xs)
  case Nil
  then show ?case by simp
next
  case (Cons p ps)
  from Cons.prems have p: "c \<notin> set p"
    by simp
  show ?case
  proof (cases ps)
    case Nil
    from p have "partition_at [c] p = None"
      by (rule partition_at_char_absent)
    then have "str_split [c] p = [p]"
      by (subst str_split.simps) simp
    with Nil show ?thesis
      by simp
  next
    case (Cons q qs)
    from p have "partition_at [c] (p @ c # str_join [c] ps) = Some (p, str_join [c] ps)"
      by (rule partition_at_char_first)
    then have "str_split [c] (p @ c # str_join [c] ps) = p # str_split [c] (str_join [c] ps)"
      by (subst str_split.simps) simp
    moreover from Cons Cons.prems Cons.IH have "str_split [c] (str_join [c] ps) = ps"
      by simp
    ultimately show ?thesis
      using Cons by simp
  qed
qed

lemma str_lines_characterised:
  "str_lines s \<noteq> []
   \<and> str_join [newline] (str_lines s) = s
   \<and> (\<forall>l \<in> set (str_lines s). newline \<notin> set l)"
  unfolding str_lines_def by (rule str_split_char)

lemma str_lines_unique:
  "xs \<noteq> [] \<Longrightarrow> \<forall>l \<in> set xs. newline \<notin> set l \<Longrightarrow> str_join [newline] xs = s \<Longrightarrow>
     str_lines s = xs"
  unfolding str_lines_def using str_split_char_unique [of xs newline] by auto

text \<open>
  Claim C3. The \<open>lines_changed\<close> of a returned analysis is the number of elements of the
  symmetric difference of the two sets of lines, those of the original content of the file
  and those of the rewritten content: a line that is in one version and not in the other
  counts once, wherever and however often it stands. The lines of a content are its split
  at the newlines: the one list of strings without a newline, not empty, that joined by
  newlines gives the content (\<open>str_lines_unique\<close>).
\<close>

theorem lines_changed_symmetric_difference:
  assumes "analyze_file env f = (printed, Returned (Analysis a))"
  shows "contents f = Some (original_code a)
         \<and> lines_changed a =
             card ((set (str_lines (original_code a)) - set (str_lines (refactored_code a)))
                   \<union> (set (str_lines (refactored_code a)) - set (str_lines (original_code a))))
         \<and> (\<forall>s \<in> {original_code a, refactored_code a}.
               str_lines s \<noteq> []
               \<and> str_join [newline] (str_lines s) = s
               \<and> (\<forall>l \<in> set (str_lines s). newline \<notin> set l)
               \<and> (\<forall>xs. xs \<noteq> [] \<and> (\<forall>l \<in> set xs. newline \<notin> set l)
                          \<and> str_join [newline] xs = s \<longrightarrow> xs = str_lines s))"
  using analyze_file_fields [OF assms] str_lines_characterised str_lines_unique
  by (auto simp: count_lines_changed_def symmetric_difference_def Let_def)

theorem lines_changed_symmetric_difference_witness:
  "analyze_file (sample_env (sample_response sample_analysis_json) None) sample_file
     = ([Analyzing, Refactoring, ModelCall ''calc.py'' sample_original, RiskReport LOW,
         ChangesReport 1, DocumentedReport],
        Returned (Analysis sample_result))
   \<and> lines_changed sample_result =
       card ((set (str_lines sample_original) - set (str_lines sample_refactored))
             \<union> (set (str_lines sample_refactored) - set (str_lines sample_original)))
   \<and> lines_changed sample_result = 3
   \<and> str_lines sample_original
       = [''def add(a, b):'', ''    return a+b'', [], ''def sub(a, b):'', ''    return a-b'', []]
   \<and> str_lines sample_refactored
       = [''def add(a, b):'', ''    return a + b'', ''def sub(a, b):'', ''    return a-b'']
   \<and> count_lines_changed ''a\<newline>b\<newline>c'' ''a\<newline>b\<newline>d'' = 2
   \<and> count_lines_changed ''a\<newline>b\<newline>c'' ''a\<newline>b'' = 1
   \<and> count_lines_changed ''a\<newline>b\<newline>a\<newline>c\<newline>c'' ''d\<newline>b\<newline>a'' = 2
   \<and> count_lines_changed ''a b c'' ''p\<newline>q\<newline>r\<newline>s'' = 5
   \<and> count_lines_changed ''a\<newline>b'' ''b\<newline>a\<newline>b'' = 0"
proof -
  have run: "analyze_file (sample_env (sample_response sample_analysis_json) None) sample_file
     = ([Analyzing, Refactoring, ModelCall ''calc.py'' sample_original, RiskReport LOW,
         ChangesReport 1, DocumentedReport],
        Returned (Analysis sample_result))"
    by code_simp
  have lines: "str_lines sample_original
       = [''def add(a, b):'', ''    return a+b'', [], ''def sub(a, b):'', ''    return a-b'', []]"
    "str_lines sample_refactored
       = [''def add(a, b):'', ''    return a + b'', ''def sub(a, b):'', ''    return a-b'']"
    by code_simp+
  have ex: "count_lines_changed ''a\<newline>b\<newline>c'' ''a\<newline>b\<newline>d'' = 2"
    "count_lines_changed ''a\<newline>b\<newline>c'' ''a\<newline>b'' = 1"
    "count_lines_changed ''a\<newline>b\<newline>a\<newline>c\<newline>c'' ''d\<newline>b\<newline>a'' = 2"
    "count_lines_changed ''a b c'' ''p\<newline>q\<newline>r\<newline>s'' = 5"
    "count_lines_changed ''a\<newline>b'' ''b\<newline>a\<newline>b'' = 0"
    by code_simp+
  have "lines_changed sample_result =
       card ((set (str_lines sample_original) - set (str_lines sample_refactored))
             \<union> (set (str_lines sample_refactored) - set (str_lines sample_original)))"
    using lines_changed_symmetric_difference [OF run] by (simp add: sample_result_def)
  with run lines ex show ?thesis
    by (simp add: sample_result_def)
qed

lemma parse_response_skips:
  "search_tag ''<refactored_code>'' ''</refactored_code>'' response = None \<Longrightarrow>
     parse_response env path original response = ([NoRefactoredCodeTags], Returned NoAnalysis)"
  "search_tag ''<refactored_code>'' ''</refactored_code>'' response = Some code_body \<Longrightarrow>
   search_tag ''<analysis>'' ''</analysis>'' response = None \<Longrightarrow>
     parse_response env path original response = ([NoAnalysisTags], Returned NoAnalysis)"
  "search_tag ''<refactored_code>'' ''</refactored_code>'' response = Some code_body \<Longrightarrow>
   search_tag ''<analysis>'' ''</analysis>'' response = Some analysis_body \<Longrightarrow>
   json_loads env (strip_code_fence (str_strip analysis_body)) = None \<Longrightarrow>
     parse_response env path original response = ([InvalidJSON], Returned NoAnalysis)"
  by (simp_all add: parse_response_def)

text \<open>
  Claim C2. A response in which a tag is missing, or whose analysis is not JSON, makes
  \<open>analyze_file\<close> print a diagnostic and return none (\<open>parse_response_skips\<close>). A response
  whose \<open>risk_level\<close> is not one of the three literals does not: \<open>RiskLevel(...)\<close> raises
  ValueError outside every handler, nothing is printed, and the exception leaves
  \<open>analyze_file\<close>. (Where the parser itself raises, its exception leaves first.)
\<close>

theorem analyze_file_unknown_risk_raises:
  assumes "contents f = Some original"
    and "50 \<le> length (str_strip original)"
    and "capability env (file_name f) original = Inr response"
    and "search_tag ''<refactored_code>'' ''</refactored_code>'' response = Some code_body"
    and "search_tag ''<analysis>'' ''</analysis>'' response = Some analysis_body"
    and "json_loads env (strip_code_fence (str_strip analysis_body)) = Some (JObj items)"
    and "map_of items ''changes_made'' = Some changes"
    and "map_of items ''risk_level'' = Some level"
    and "RiskLevel_of level = None"
  shows "analyze_file env f =
           (case ast_parse env original of
              ParseRaised e \<Rightarrow> ([Analyzing], Raised e)
            | _ \<Rightarrow> ([Analyzing, Refactoring, ModelCall (file_name f) original],
                   Raised ValueError))"
proof -
  have "build_analysis (rel_path f) original (str_strip code_body) (JObj items)
          = ([], Raised ValueError)"
    using assms(7-9) by (simp add: build_analysis_def)
  with assms(4-6) have "parse_response env (rel_path f) original response
          = ([], Raised ValueError)"
    by (simp add: parse_response_def)
  with assms(1-3) show ?thesis
    by (simp add: analyze_file_def needs_refactoring_def split: parse_result.split)
qed

theorem analyze_file_unknown_risk_raises_witness:
  "analyze_file (sample_env (sample_response sample_critical_json) None) sample_file =
     ([Analyzing, Refactoring, ModelCall ''calc.py'' sample_original], Raised ValueError)
   \<and> json_loads (sample_env (sample_response sample_critical_json) None) sample_critical_json
       = Some (JObj [(''changes_made'', JArr []), (''risk_level'', JStr ''critical''),
                     (''risk_reasoning'', JStr ''unsafe'')])
   \<and> RiskLevel_of (JStr ''critical'') = None"
proof -
  let ?env = "sample_env (sample_response sample_critical_json) None"
  let ?items = "[(''changes_made'', JArr []), (''risk_level'', JStr ''critical''),
                 (''risk_reasoning'', JStr ''unsafe'')]"
  have 1: "contents sample_file = Some sample_original"
    by (simp add: sample_file_def)
  have 2: "50 \<le> length (str_strip sample_original)"
    by code_simp
  have 3: "capability ?env (file_name sample_file) sample_original
             = Inr (sample_response sample_critical_json)"
    by (simp add: sample_env_def)
  have p: "ast_parse ?env sample_original = Parsed sample_tree"
    by (simp add: sample_env_def)
  have 4: "search_tag ''<refactored_code>'' ''</refactored_code>''
             (sample_response sample_critical_json)
             = Some (newline # sample_refactored @ [newline])"
    by code_simp
  have 5: "search_tag ''<analysis>'' ''</analysis>'' (sample_response sample_critical_json)
             = Some sample_critical_json"
    by code_simp
  have 6: "json_loads ?env (strip_code_fence (str_strip sample_critical_json)) = Some (JObj ?items)"
    by code_simp
  have 7: "map_of ?items ''changes_made'' = Some (JArr [])"
    by simp
  have 8: "map_of ?items ''risk_level'' = Some (JStr ''critical'')"
    by simp
  have 9: "RiskLevel_of (JStr ''critical'') = None"
    by (simp add: RiskLevel_of_def)
  have 10: "json_loads ?env sample_critical_json = Some (JObj ?items)"
    by code_simp
  have 11: "file_name sample_file = ''calc.py''"
    by (simp add: sample_file_def)
  from analyze_file_unknown_risk_raises [OF 1 2 3 4 5 6 7 8 9] p 9 10 11 show ?thesis
    by simp
qed

subsection \<open>Security flag\<close>

lemma mentions_keyword_iff:
  "mentions_keyword keywords analyses \<longleftrightarrow>
     (\<exists>a \<in> set analyses. \<exists>t \<in> set (risk_reasoning a # changes_made a).
        \<exists>k \<in> set keywords. sublist k (str_lower t))"
  by (induction analyses) (auto simp: list_ex_iff Let_def)

lemma default_keywords_lower:
  "list_all (\<lambda>k. str_lower k = k) default_security_keywords"
  by code_simp

lemma lower_char_idem: "lower_char (lower_char c) = lower_char c"
proof -
  let ?n = "of_char c :: nat"
  have small: "?n < 256"
    by simp
  show ?thesis
  proof (cases "(65 \<le> ?n \<and> ?n \<le> 90) \<or> (192 \<le> ?n \<and> ?n \<le> 222 \<and> ?n \<noteq> 215)")
    case False
    then have "lower_char c = c"
      unfolding lower_char_def Let_def by (simp only: if_False)
    then show ?thesis
      by simp
  next
    case True
    then have l: "lower_char c = char_of (?n + 32)"
      by (simp add: lower_char_def Let_def)
    from True have m: "(of_char (char_of (?n + 32) :: char) :: nat) = ?n + 32"
      by (auto simp: of_char_of)
    from True have "\<not> ((65 \<le> ?n + 32 \<and> ?n + 32 \<le> 90)
                \<or> (192 \<le> ?n + 32 \<and> ?n + 32 \<le> 222 \<and> ?n + 32 \<noteq> 215))"
      by auto
    with m have "lower_char (char_of (?n + 32)) = char_of (?n + 32)"
      unfolding lower_char_def Let_def by (simp only: if_False)
    with l show ?thesis
      by simp
  qed
qed

lemma lowered_text_has_no_upper:
  assumes "sublist k (str_lower t)" and "c \<in> set k"
  shows "lower_char c = c"
proof -
  from assms(1) have "set k \<subseteq> set (str_lower t)"
    by (rule set_mono_sublist)
  with assms(2) obtain d where "c = lower_char d"
    by (auto simp: str_lower_def)
  then show ?thesis
    by (simp add: lower_char_idem)
qed

lemma security_flag_lowercase_terms:
  assumes "list_all (\<lambda>k. str_lower k = k) (configured_keywords env)"
  shows "has_critical_security_issues env analyses \<longleftrightarrow>
           (\<exists>a \<in> set analyses. \<exists>t \<in> set (risk_reasoning a # changes_made a).
              \<exists>k \<in> set (configured_keywords env). sublist (str_lower k) (str_lower t))"
proof -
  from assms have "\<And>k. k \<in> set (configured_keywords env) \<Longrightarrow> str_lower k = k"
    by (simp add: list_all_iff)
  then show ?thesis
    unfolding has_critical_security_issues_def mentions_keyword_iff
    by (metis (no_types, lifting))
qed

text \<open>
  Claim C6. The flag is the match of the configured terms, as they are written in the
  list, against the lower-cased justification and the lower-cased change descriptions.
  For the terms that are in lower case, as all of the default list are, that is the
  case-insensitive match of the claim (\<open>security_flag_lowercase_terms\<close>). A term with an
  upper-case letter is compared as it is and matches no text at all: with \<open>XSS\<close> as the
  configured term, a justification that contains \<open>xss\<close> does not set the flag.
\<close>

theorem security_flag_misses_uppercase_terms:
  "(has_critical_security_issues env analyses \<longleftrightarrow>
      (\<exists>a \<in> set analyses. \<exists>t \<in> set (risk_reasoning a # changes_made a).
         \<exists>k \<in> set (configured_keywords env). sublist k (str_lower t)))
   \<and> (list_all (\<lambda>k. list_ex (\<lambda>c. lower_char c \<noteq> c) k) (configured_keywords env) \<longrightarrow>
        \<not> has_critical_security_issues env analyses)"
proof (intro conjI impI)
  show general: "has_critical_security_issues env analyses \<longleftrightarrow>
      (\<exists>a \<in> set analyses. \<exists>t \<in> set (risk_reasoning a # changes_made a).
         \<exists>k \<in> set (configured_keywords env). sublist k (str_lower t))"
    by (simp only: has_critical_security_issues_def mentions_keyword_iff)
  show "\<not> has_critical_security_issues env analyses"
    if upper: "list_all (\<lambda>k. list_ex (\<lambda>c. lower_char c \<noteq> c) k) (configured_keywords env)"
  proof
    assume "has_critical_security_issues env analyses"
    with general obtain t k
      where k: "k \<in> set (configured_keywords env)" and hit: "sublist k (str_lower t)"
      by blast
    from upper k obtain c where "c \<in> set k" and "lower_char c \<noteq> c"
      by (auto simp: list_all_iff list_ex_iff)
    with lowered_text_has_no_upper [OF hit] show False
      by blast
  qed
qed

theorem security_flag_misses_uppercase_terms_witness:
  "configured_keywords (sample_env [] (Some [''XSS''])) = [''XSS'']
   \<and> list_ex (\<lambda>c. lower_char c \<noteq> c) ''XSS''
   \<and> sublist (str_lower ''XSS'') (str_lower ''Possible xss in the template'')
   \<and> \<not> has_critical_security_issues (sample_env [] (Some [''XSS'']))
         [sample_analysis LOW ''Possible xss in the template'' []]
   \<and> has_critical_security_issues (sample_env [] (Some [''xss'']))
         [sample_analysis LOW ''Possible xss in the template'' []]
   \<and> has_critical_security_issues (sample_env [] None)
         [sample_analysis LOW ''Fixes SQL Injection in the query builder'' []]"
proof -
  let ?env = "sample_env [] (Some [''XSS''])"
  have kws: "configured_keywords ?env = [''XSS'']"
    by (simp add: configured_keywords_def sample_env_def)
  have upper: "list_ex (\<lambda>c. lower_char c \<noteq> c) ''XSS''"
    by code_simp
  have insensitive: "sublist (str_lower ''XSS'') (str_lower ''Possible xss in the template'')"
    by code_simp
  have all_upper: "list_all (\<lambda>k. list_ex (\<lambda>c. lower_char c \<noteq> c) k) (configured_keywords ?env)"
    unfolding kws using upper by simp
  have missed: "\<not> has_critical_security_issues ?env
                   [sample_analysis LOW ''Possible xss in the template'' []]"
    using security_flag_misses_uppercase_terms
            [of ?env "[sample_analysis LOW ''Possible xss in the template'' []]"]
          all_upper
    by blast
  have found: "has_critical_security_issues (sample_env [] (Some [''xss'']))
         [sample_analysis LOW ''Possible xss in the template'' []]"
    "has_critical_security_issues (sample_env [] None)
         [sample_analysis LOW ''Fixes SQL Injection in the query builder'' []]"
    by code_simp+
  from kws upper insensitive missed found show ?thesis
    by blast
qed

subsection \<open>The scan\<close>

text \<open>
  Claim C7. A \<open>CodebaseAnalysis\<close> that \<open>scan_codebase\<close> returns holds the analyses that
  \<open>analyze_file\<close> returned, in the order of the files; its \<open>total_files\<close> is their number,
  its \<open>total_changes\<close> the sum of the lengths of their \<open>changes_made\<close>, and its
  \<open>overall_risk\<close> is \<open>_calculate_overall_risk\<close> of that list.
\<close>

theorem scan_codebase_invariant:
  assumes "scan_codebase env python_files = Returned (Scan codebase)"
  shows "total_files codebase = length (files codebase)
         \<and> total_changes codebase
             = sum_list (map (\<lambda>a. length (changes_made a)) (files codebase))
         \<and> overall_risk codebase = calculate_overall_risk (files codebase)
         \<and> analyze_files env python_files = Returned (Analyses (files codebase))"
  using assms
  by (auto simp: scan_codebase_def Let_def split: outcome.splits analyses.splits)

theorem scan_codebase_invariant_witness:
  "scan_codebase (sample_env (sample_response sample_analysis_json) None)
     [small_file, sample_file, sample_file]
     = Returned (Scan
         \<lparr>files = [sample_result, sample_result], overall_risk = LOW, total_files = 2,
          total_changes = 2, summary = [],
          packages = [(''pkg'', [sample_result, sample_result])],
          has_critical_security = False\<rparr>)
   \<and> calculate_overall_risk [sample_result, sample_result] = LOW
   \<and> sum_list (map (\<lambda>a. length (changes_made a)) [sample_result, sample_result]) = 2"
proof -
  let ?env = "sample_env (sample_response sample_analysis_json) None"
  let ?codebase = "\<lparr>files = [sample_result, sample_result], overall_risk = LOW,
          total_files = 2, total_changes = 2, summary = [],
          packages = [(''pkg'', [sample_result, sample_result])],
          has_critical_security = False\<rparr>"
  have run: "scan_codebase ?env [small_file, sample_file, sample_file] = Returned (Scan ?codebase)"
    by code_simp
  from scan_codebase_invariant [OF run] run show ?thesis
    by simp
qed

subsection \<open>Loading the secret file\<close>







subsection \<open>Pushing the files and opening the pull request\<close>

lemma push_is_not_pr:
  "push_request owner repo branch_name commit_message changed
     \<noteq> pr_request owner repo branch_name pr_title pr_body"
  by (simp add: push_request_def pr_request_def tool_request_def)

lemma step_failed_absent: "step_failed JNull = Returned True"
  by (simp add: step_failed_def)

lemma step_failed_error_field:
  assumes "has_error_field r"
  shows "step_failed r = (if has_error_object r then Returned True else Raised AttributeError)"
proof -
  from assms obtain items err where r: "r = JObj items" and e: "map_of items ''error'' = Some err"
    by (auto simp: has_error_field_def split: json.splits)
  then have "items \<noteq> []"
    by auto
  with r e show ?thesis
    by (cases err) (simp_all add: step_failed_def has_error_object_def)
qed

lemma step_failed_False:
  assumes "step_failed r = Returned False"
  shows "r \<noteq> JNull \<and> \<not> has_error_field r"
proof -
  from assms have truthy: "py_truthy r" and no: "py_contains ''error'' r = Inr False"
    by (auto simp: step_failed_def split: if_splits sum.splits bool.splits)
  from truthy have "r \<noteq> JNull"
    by auto
  moreover from no have "\<not> has_error_field r"
    by (cases r) (auto simp: has_error_field_def)
  ultimately show ?thesis
    by simp
qed

text \<open>
  Claim C4. When the response to the push is absent or has an \<open>error\<close> field, the push is
  the only request issued and the pull request is never asked for; the request for the
  pull request is issued only after a push response that is present and has no \<open>error\<close>
  field. The workflow returns none when the response is absent or its \<open>error\<close> is an
  object. It does not return when the \<open>error\<close> is anything else, a string for one:
  formatting the message calls \<open>get\<close> on it, and AttributeError leaves
  \<open>_create_pr_via_mcp\<close>.
\<close>

theorem push_failure_stops_workflow:
  fixes run_mcp_tool :: "string \<Rightarrow> json \<Rightarrow> json"
    and owner repo branch_name commit_message pr_title pr_body :: string
    and changed :: "(string \<times> string) list"
  defines "push \<equiv> push_request owner repo branch_name commit_message changed"
    and "pr \<equiv> pr_request owner repo branch_name pr_title pr_body"
    and "run \<equiv> create_pr_via_mcp run_mcp_tool owner repo branch_name commit_message
                  pr_title pr_body changed"
  defines "push_result \<equiv> run_mcp_tool ''github'' push"
  shows "(push_result = JNull \<or> has_error_field push_result \<longrightarrow>
            fst run = [push] \<and> pr \<notin> set (fst run) \<and> pr_url_of (snd run) = JNull
            \<and> (snd run = Returned JNull \<or> snd run = Raised AttributeError))
         \<and> (push_result = JNull \<or> has_error_object push_result \<longrightarrow>
              run = ([push], Returned JNull))
         \<and> (has_error_field push_result \<and> \<not> has_error_object push_result \<longrightarrow>
              run = ([push], Raised AttributeError))
         \<and> (pr \<in> set (fst run) \<longrightarrow> push_result \<noteq> JNull \<and> \<not> has_error_field push_result)"
proof (intro conjI impI)
  have run_eq: "run =
     (case step_failed push_result of
        Raised e \<Rightarrow> ([push], Raised e)
      | Returned True \<Rightarrow> ([push], Returned JNull)
      | Returned False \<Rightarrow>
          (case step_failed (run_mcp_tool ''github'' pr) of
             Raised e \<Rightarrow> ([push, pr], Raised e)
           | Returned True \<Rightarrow> ([push, pr], Returned JNull)
           | Returned False \<Rightarrow> ([push, pr], extract_pr_url (run_mcp_tool ''github'' pr))))"
    unfolding run_def create_pr_via_mcp_def Let_def push_def pr_def push_result_def
    by (rule refl)
  have distinct: "pr \<noteq> push"
    using push_is_not_pr [of owner repo branch_name commit_message changed pr_title pr_body]
    by (simp add: push_def pr_def)
  {
    assume failed: "push_result = JNull \<or> has_error_field push_result"
    then have sf: "step_failed push_result = Returned True
                   \<or> step_failed push_result = Raised AttributeError"
      using step_failed_absent step_failed_error_field [of push_result]
      by (cases "has_error_object push_result") auto
    from sf show "fst run = [push]"
      by (auto simp: run_eq)
    with distinct show "pr \<notin> set (fst run)"
      by simp
    from sf show "pr_url_of (snd run) = JNull"
      by (auto simp: run_eq pr_url_of_def)
    from sf show "snd run = Returned JNull \<or> snd run = Raised AttributeError"
      by (auto simp: run_eq)
  }
  {
    assume "push_result = JNull \<or> has_error_object push_result"
    moreover have "has_error_field push_result" if "has_error_object push_result"
      using that by (auto simp: has_error_object_def has_error_field_def split: json.splits option.splits)
    ultimately have "step_failed push_result = Returned True"
      using step_failed_absent step_failed_error_field [of push_result]
      by (cases "has_error_object push_result") auto
    then show "run = ([push], Returned JNull)"
      by (simp add: run_eq)
  }
  {
    assume "has_error_field push_result \<and> \<not> has_error_object push_result"
    then have "step_failed push_result = Raised AttributeError"
      using step_failed_error_field [of push_result] by simp
    then show "run = ([push], Raised AttributeError)"
      by (simp add: run_eq)
  }
  {
    assume issued: "pr \<in> set (fst run)"
    have "step_failed push_result = Returned False"
    proof (cases "step_failed push_result")
      case (Raised e)
      with issued distinct show ?thesis by (simp add: run_eq)
    next
      case (Returned b)
      with issued distinct show ?thesis by (cases b) (simp_all add: run_eq)
    qed
    from step_failed_False [OF this]
    show "push_result \<noteq> JNull" and "\<not> has_error_field push_result"
      by simp_all
  }
qed

theorem push_failure_stops_workflow_witness:
  "sample_run (JObj [(''error'', JObj [(''message'', JStr ''Reference already exists'')])])
     = ([push_request ''acme'' ''tools'' ''refactor/automated-code-improvements''
           ''Automated code refactoring'' [(''pkg/calc.py'', sample_refactored)]],
        Returned JNull)
   \<and> sample_run JNull
     = ([push_request ''acme'' ''tools'' ''refactor/automated-code-improvements''
           ''Automated code refactoring'' [(''pkg/calc.py'', sample_refactored)]],
        Returned JNull)
   \<and> sample_run (JObj [(''error'', JStr ''Bad credentials'')])
     = ([push_request ''acme'' ''tools'' ''refactor/automated-code-improvements''
           ''Automated code refactoring'' [(''pkg/calc.py'', sample_refactored)]],
        Raised AttributeError)
   \<and> sample_run (JObj [(''result'', JObj [])])
     = ([push_request ''acme'' ''tools'' ''refactor/automated-code-improvements''
           ''Automated code refactoring'' [(''pkg/calc.py'', sample_refactored)],
         pr_request ''acme'' ''tools'' ''refactor/automated-code-improvements''
           ''Refactoring'' ''Body''],
        Returned (JStr ''https://github.com/acme/tools/pull/7''))"
proof -
  let ?push = "push_request ''acme'' ''tools'' ''refactor/automated-code-improvements''
                 ''Automated code refactoring'' [(''pkg/calc.py'', sample_refactored)]"
  let ?err = "JObj [(''error'', JObj [(''message'', JStr ''Reference already exists'')])]"
  have answer: "sample_backend r ''github'' ?push = r" for r
    by (simp add: sample_backend_def requested_tool_def push_request_def tool_request_def)
  have object: "has_error_object ?err"
    by (simp add: has_error_object_def)
  have 1: "sample_run ?err = ([?push], Returned JNull)"
    using push_failure_stops_workflow
            [of "sample_backend ?err" "''acme''" "''tools''"
                "''refactor/automated-code-improvements''" "''Automated code refactoring''"
                "[(''pkg/calc.py'', sample_refactored)]" "''Refactoring''" "''Body''"]
          answer [of ?err] object
    by (simp add: sample_run_def)
  have 2: "sample_run JNull = ([?push], Returned JNull)"
    using push_failure_stops_workflow
            [of "sample_backend JNull" "''acme''" "''tools''"
                "''refactor/automated-code-improvements''" "''Automated code refactoring''"
                "[(''pkg/calc.py'', sample_refactored)]" "''Refactoring''" "''Body''"]
          answer [of JNull]
    by (simp add: sample_run_def)
  let ?bad = "JObj [(''error'', JStr ''Bad credentials'')]"
  have field: "has_error_field ?bad \<and> \<not> has_error_object ?bad"
    by (simp add: has_error_field_def has_error_object_def)
  have 4: "sample_run ?bad = ([?push], Raised AttributeError)"
    using push_failure_stops_workflow
            [of "sample_backend ?bad" "''acme''" "''tools''"
                "''refactor/automated-code-improvements''" "''Automated code refactoring''"
                "[(''pkg/calc.py'', sample_refactored)]" "''Refactoring''" "''Body''"]
          answer [of ?bad] field
    by (simp add: sample_run_def)
  have 3: "sample_run (JObj [(''result'', JObj [])])
     = ([?push,
         pr_request ''acme'' ''tools'' ''refactor/automated-code-improvements''
           ''Refactoring'' ''Body''],
        Returned (JStr ''https://github.com/acme/tools/pull/7''))"
    by code_simp
  from 1 2 3 4 show ?thesis
    by simp
qed

subsection \<open>Repository identity\<close>

text \<open>
  Claim C9. Both resolvers read the owner and the repository name from the URL style and
  from the SCP style of a remote. They do not strip only the trailing \<open>.git\<close>: every
  occurrence of \<open>.git\<close> is removed, so the repository \<open>octocat.github.io\<close> is resolved
  as \<open>octocathub.io\<close>.
\<close>

theorem repo_name_loses_every_git:
  "scanner_get_repo_info (UrlMatch ''https://github.com/octocat/octocat.github.io.git'') [] []
     = Inr (''octocat'', ''octocathub.io'')
   \<and> get_repo_info (Some ''git@github.com:octocat/octocat.github.io.git\<newline>'')
     = Inr (''octocat'', ''octocathub.io'')
   \<and> scanner_get_repo_info (UrlMatch ''https://github.com/octocat/Hello-World.git'') [] []
     = Inr (''octocat'', ''Hello-World'')
   \<and> get_repo_info (Some ''git@github.com:octocat/Hello-World.git\<newline>'')
     = Inr (''octocat'', ''Hello-World'')"
  by code_simp

theorem repo_name_loses_every_git_witness:
  "scanner_get_repo_info (UrlMatch ''https://github.com/octocat/octocat.github.io.git'') [] []
     \<noteq> Inr (''octocat'', ''octocat.github.io'')
   \<and> get_repo_info (Some ''git@github.com:octocat/octocat.github.io.git\<newline>'')
     \<noteq> Inr (''octocat'', ''octocat.github.io'')"
  using repo_name_loses_every_git by simp

end
